theory Spec2Isabelle
  imports
    Main
    "HOL-Library.Char_ord"
    "HOL-Library.List_Lexorder"
    "HOL-Library.AList"
    "HOL-Library.Sublist"
begin

section \<open>go-monigo: the transport core and the error taxonomy\<close>

text \<open>
  A shallow embedding of \<^verbatim>\<open>errors.go\<close>, \<^verbatim>\<open>client.go\<close> and the list facades
  (\<^verbatim>\<open>subscriptions.go\<close>, the invoice, usage and portal-token services).

  Go strings are byte sequences: a Go \<^verbatim>\<open>string\<close> or \<^verbatim>\<open>[]byte\<close> is a \<^typ>\<open>string\<close>
  (a list of 8-bit \<^typ>\<open>char\<close>), and Go's string order is the lexicographic order on
  the bytes. Go's \<^verbatim>\<open>int\<close> is \<^typ>\<open>int\<close>: the only arithmetic on it is comparison.
\<close>

subsection \<open>errors.go: APIError\<close>

text \<open>
  \<^verbatim>\<open>map[string]string\<close> is an association list read through \<^const>\<open>map_of\<close>: the
  first binding of a key is the map's entry. The nil map and the empty map are both
  \<open>[]\<close>; the source only takes \<^verbatim>\<open>len\<close> of the map and prints it, and both
  agree on the two.
\<close>

type_synonym go_map = "(string \<times> string) list"

definition map_keys :: "go_map \<Rightarrow> string list" where
  "map_keys m = sort (remdups (map fst m))"

definition map_len :: "go_map \<Rightarrow> nat" where
  "map_len m = length (map_keys m)"


record APIError =
  StatusCode :: int
  Message :: string
  Details :: go_map

subsection \<open>fmt: the verbs \<^verbatim>\<open>%d\<close>, \<^verbatim>\<open>%s\<close> and \<^verbatim>\<open>%v\<close>\<close>







subsection \<open>Error values and errors.As\<close>

text \<open>
  The values of Go's \<^verbatim>\<open>error\<close> interface that the package and its tests build:
  an error of another package carrying only a text (\<^verbatim>\<open>errors.New\<close>, an error of
  \<^verbatim>\<open>encoding/json\<close> or \<^verbatim>\<open>net/http\<close>), an error wrapped by
  \<^verbatim>\<open>fmt.Errorf("<prefix>: %w", err)\<close>, and a non-nil \<^verbatim>\<open>*APIError\<close>. The nil
  error is \<open>None\<close> of \<^typ>\<open>'a option\<close>.
\<close>

datatype go_error =
    ErrorString string
  | WrapError string go_error
  | APIErr APIError

text \<open>
  \<^verbatim>\<open>errors.As(err, &e)\<close> with \<^verbatim>\<open>e\<close> of type \<^verbatim>\<open>*APIError\<close>: false on nil,
  otherwise the first \<^verbatim>\<open>*APIError\<close> on the \<^verbatim>\<open>Unwrap\<close> chain, if there is one.
\<close>

fun as_chain :: "go_error \<Rightarrow> APIError option" where
  "as_chain (ErrorString s) = None"
| "as_chain (WrapError p e) = as_chain e"
| "as_chain (APIErr a) = Some a"

definition errors_As :: "go_error option \<Rightarrow> APIError option" where
  "errors_As err = (case err of None \<Rightarrow> None | Some x \<Rightarrow> as_chain x)"

text \<open>
  The seven predicates, each
  \<^verbatim>\<open>var e *APIError; return errors.As(err, &e) && e.StatusCode == <code>\<close>.
\<close>

definition IsNotFound :: "go_error option \<Rightarrow> bool" where
  "IsNotFound err = (case errors_As err of None \<Rightarrow> False | Some e \<Rightarrow> StatusCode e = 404)"

definition IsUnauthorized :: "go_error option \<Rightarrow> bool" where
  "IsUnauthorized err = (case errors_As err of None \<Rightarrow> False | Some e \<Rightarrow> StatusCode e = 401)"

definition IsForbidden :: "go_error option \<Rightarrow> bool" where
  "IsForbidden err = (case errors_As err of None \<Rightarrow> False | Some e \<Rightarrow> StatusCode e = 403)"

definition IsConflict :: "go_error option \<Rightarrow> bool" where
  "IsConflict err = (case errors_As err of None \<Rightarrow> False | Some e \<Rightarrow> StatusCode e = 409)"

definition IsRateLimited :: "go_error option \<Rightarrow> bool" where
  "IsRateLimited err = (case errors_As err of None \<Rightarrow> False | Some e \<Rightarrow> StatusCode e = 429)"

definition IsQuotaExceeded :: "go_error option \<Rightarrow> bool" where
  "IsQuotaExceeded err = (case errors_As err of None \<Rightarrow> False | Some e \<Rightarrow> StatusCode e = 402)"

definition IsValidationError :: "go_error option \<Rightarrow> bool" where
  "IsValidationError err =
     (case errors_As err of None \<Rightarrow> False
      | Some e \<Rightarrow> StatusCode e = 400 \<and> map_len (Details e) > 0)"

text \<open>An error value with no \<^verbatim>\<open>*APIError\<close> anywhere on its chain.\<close>

fun api_free :: "go_error \<Rightarrow> bool" where
  "api_free (ErrorString s) = True"
| "api_free (WrapError p e) = api_free e"
| "api_free (APIErr a) = False"

text \<open>
  The seven predicates in the order IsUnauthorized (401), IsQuotaExceeded (402),
  IsForbidden (403), IsNotFound (404), IsConflict (409), IsRateLimited (429),
  IsValidationError (400 with details).
\<close>

definition all_predicates :: "go_error option \<Rightarrow> bool list" where
  "all_predicates err =
     [IsUnauthorized err, IsQuotaExceeded err, IsForbidden err, IsNotFound err,
      IsConflict err, IsRateLimited err, IsValidationError err]"

subsection \<open>encoding/json: reading a JSON text\<close>

definition byte :: "char \<Rightarrow> nat" where
  "byte c = of_char c"

datatype json =
    JNull
  | JBool bool
  | JNumber string
  | JString string
  | JArray "json list"
  | JObject "(string \<times> json) list"

definition is_space :: "char \<Rightarrow> bool" where
  "is_space c \<longleftrightarrow> c = CHR '' '' \<or> byte c = 9 \<or> byte c = 10 \<or> byte c = 13"

definition is_punct :: "char \<Rightarrow> bool" where
  "is_punct c \<longleftrightarrow> c \<in> set ''{}[]:,''"

definition is_digit :: "char \<Rightarrow> bool" where
  "is_digit c \<longleftrightarrow> 48 \<le> byte c \<and> byte c \<le> 57"

datatype raw_token = RPunct char | RString string | RWord string

datatype lex_mode = LIdle | LWord string | LString string | LEscape string

fun lex :: "lex_mode \<Rightarrow> raw_token list \<Rightarrow> string \<Rightarrow> raw_token list option" where
  "lex LIdle acc [] = Some (rev acc)"
| "lex (LWord w) acc [] = Some (rev (RWord (rev w) # acc))"
| "lex (LString s) acc [] = None"
| "lex (LEscape s) acc [] = None"
| "lex LIdle acc (c # cs) =
     (if is_space c then lex LIdle acc cs
      else if c = CHR 0x22 then lex (LString []) acc cs
      else if is_punct c then lex LIdle (RPunct c # acc) cs
      else lex (LWord [c]) acc cs)"
| "lex (LWord w) acc (c # cs) =
     (if is_space c then lex LIdle (RWord (rev w) # acc) cs
      else if c = CHR 0x22 then lex (LString []) (RWord (rev w) # acc) cs
      else if is_punct c then lex LIdle (RPunct c # RWord (rev w) # acc) cs
      else lex (LWord (c # w)) acc cs)"
| "lex (LString s) acc (c # cs) =
     (if c = CHR 0x22 then lex LIdle (RString (rev s) # acc) cs
      else if c = CHR 0x5C then lex (LEscape (c # s)) acc cs
      else lex (LString (c # s)) acc cs)"
| "lex (LEscape s) acc (c # cs) = lex (LString (c # s)) acc cs"

definition exp_ok :: "string \<Rightarrow> bool" where
  "exp_ok r =
     (case r of
        [] \<Rightarrow> True
      | e # r1 \<Rightarrow>
          (e = CHR ''e'' \<or> e = CHR ''E'') \<and>
          (let r2 = (case r1 of [] \<Rightarrow> []
                     | s # x \<Rightarrow> if s = CHR ''+'' \<or> s = CHR ''-'' then x else r1)
           in r2 \<noteq> [] \<and> list_all is_digit r2))"

definition frac_ok :: "string \<Rightarrow> bool" where
  "frac_ok r =
     (case r of
        [] \<Rightarrow> True
      | p # r1 \<Rightarrow>
          if p = CHR ''.''
          then (case r1 of [] \<Rightarrow> False
                | d # r2 \<Rightarrow> is_digit d \<and> exp_ok (dropWhile is_digit r2))
          else exp_ok r)"

definition number_ok :: "string \<Rightarrow> bool" where
  "number_ok s =
     (let s1 = (case s of [] \<Rightarrow> [] | m # r \<Rightarrow> if m = CHR ''-'' then r else s)
      in case s1 of
           [] \<Rightarrow> False
         | d # r \<Rightarrow>
             if d = CHR ''0'' then frac_ok r
             else is_digit d \<and> frac_ok (dropWhile is_digit r))"

definition hex_val :: "char \<Rightarrow> nat option" where
  "hex_val c =
     (let b = byte c in
      if 48 \<le> b \<and> b \<le> 57 then Some (b - 48)
      else if 97 \<le> b \<and> b \<le> 102 then Some (b - 87)
      else if 65 \<le> b \<and> b \<le> 70 then Some (b - 55)
      else None)"

definition getu4 :: "string \<Rightarrow> nat option" where
  "getu4 s =
     (case s of
        b # u # h1 # h2 # h3 # h4 # rest \<Rightarrow>
          if b = CHR 0x5C \<and> u = CHR ''u'' then
            (case (hex_val h1, hex_val h2, hex_val h3, hex_val h4) of
               (Some a, Some b, Some c, Some d) \<Rightarrow> Some (((a * 16 + b) * 16 + c) * 16 + d)
             | _ \<Rightarrow> None)
          else None
      | _ \<Rightarrow> None)"

definition EncodeRune :: "nat \<Rightarrow> string" where
  "EncodeRune r =
     (if r < 0x80 then [char_of r]
      else if r < 0x800 then [char_of (0xC0 + r div 64), char_of (0x80 + r mod 64)]
      else if 0xD800 \<le> r \<and> r \<le> 0xDFFF \<or> 0x10FFFF < r then [CHR 0xEF, CHR 0xBF, CHR 0xBD]
      else if r < 0x10000 then
        [char_of (0xE0 + r div 4096), char_of (0x80 + (r div 64) mod 64),
         char_of (0x80 + r mod 64)]
      else
        [char_of (0xF0 + r div 262144), char_of (0x80 + (r div 4096) mod 64),
         char_of (0x80 + (r div 64) mod 64), char_of (0x80 + r mod 64)])"

definition is_surrogate :: "nat \<Rightarrow> bool" where
  "is_surrogate r \<longleftrightarrow> 0xD800 \<le> r \<and> r < 0xE000"

definition utf16_DecodeRune :: "nat \<Rightarrow> nat option \<Rightarrow> nat" where
  "utf16_DecodeRune r1 r2o =
     (case r2o of
        None \<Rightarrow> 0xFFFD
      | Some r2 \<Rightarrow>
          if 0xD800 \<le> r1 \<and> r1 < 0xDC00 \<and> 0xDC00 \<le> r2 \<and> r2 < 0xE000
          then (r1 - 0xD800) * 1024 + (r2 - 0xDC00) + 0x10000
          else 0xFFFD)"

definition is_cont :: "char \<Rightarrow> bool" where
  "is_cont c \<longleftrightarrow> 0x80 \<le> byte c \<and> byte c \<le> 0xBF"

definition utf8_first :: "char \<Rightarrow> (nat \<times> nat \<times> nat) option" where
  "utf8_first c =
     (let b = byte c in
      if 0xC2 \<le> b \<and> b \<le> 0xDF then Some (2, 0x80, 0xBF)
      else if b = 0xE0 then Some (3, 0xA0, 0xBF)
      else if b = 0xED then Some (3, 0x80, 0x9F)
      else if 0xE1 \<le> b \<and> b \<le> 0xEF then Some (3, 0x80, 0xBF)
      else if b = 0xF0 then Some (4, 0x90, 0xBF)
      else if 0xF1 \<le> b \<and> b \<le> 0xF3 then Some (4, 0x80, 0xBF)
      else if b = 0xF4 then Some (4, 0x80, 0x8F)
      else None)"

definition utf8_size :: "char \<Rightarrow> string \<Rightarrow> nat" where
  "utf8_size c cs =
     (case utf8_first c of
        None \<Rightarrow> 1
      | Some (n, lo, hi) \<Rightarrow>
          (case cs of
             [] \<Rightarrow> 1
           | b1 # r \<Rightarrow>
               if n - 1 \<le> length cs \<and> lo \<le> byte b1 \<and> byte b1 \<le> hi
                  \<and> list_all is_cont (take (n - 2) r)
               then n else 1))"

definition simple_escape :: "char \<Rightarrow> char option" where
  "simple_escape c =
     (if c = CHR 0x22 \<or> c = CHR 0x5C \<or> c = CHR ''/'' then Some c
      else if c = CHR ''b'' then Some (CHR 0x08)
      else if c = CHR ''f'' then Some (CHR 0x0C)
      else if c = CHR ''n'' then Some (CHR 0x0A)
      else if c = CHR ''r'' then Some (CHR 0x0D)
      else if c = CHR ''t'' then Some (CHR 0x09)
      else None)"

fun unquote :: "nat \<Rightarrow> string \<Rightarrow> string option" where
  "unquote k [] = Some []"
| "unquote (Suc k) (c # cs) = map_option ((#) c) (unquote k cs)"
| "unquote 0 (c # cs) =
     (if c = CHR 0x5C then
        (case cs of
           [] \<Rightarrow> None
         | e # rest \<Rightarrow>
             if e = CHR ''u'' then
               (case getu4 (c # cs) of
                  None \<Rightarrow> None
                | Some rr \<Rightarrow>
                    if is_surrogate rr then
                      (let dec = utf16_DecodeRune rr (getu4 (drop 5 cs)) in
                       if dec \<noteq> 0xFFFD
                       then map_option ((@) (EncodeRune dec)) (unquote 0 (drop 11 cs))
                       else map_option ((@) (EncodeRune 0xFFFD)) (unquote 0 (drop 5 cs)))
                    else map_option ((@) (EncodeRune rr)) (unquote 0 (drop 5 cs)))
             else
               (case simple_escape e of
                  None \<Rightarrow> None
                | Some b \<Rightarrow> map_option ((#) b) (unquote 0 rest)))
      else if byte c < 0x20 then None
      else if byte c < 0x80 then map_option ((#) c) (unquote 0 cs)
      else if utf8_size c cs = 1 then map_option ((@) (EncodeRune 0xFFFD)) (unquote 0 cs)
      else map_option ((#) c) (unquote (utf8_size c cs - 1) cs))"

datatype token = TPunct char | TString string | TNumber string | TBool bool | TNull

definition token_of :: "raw_token \<Rightarrow> token option" where
  "token_of r =
     (case r of
        RPunct c \<Rightarrow> Some (TPunct c)
      | RString s \<Rightarrow> map_option TString (unquote 0 s)
      | RWord w \<Rightarrow>
          if w = ''true'' then Some (TBool True)
          else if w = ''false'' then Some (TBool False)
          else if w = ''null'' then Some TNull
          else if number_ok w then Some (TNumber w)
          else None)"

fun tokens_of :: "raw_token list \<Rightarrow> token list option" where
  "tokens_of [] = Some []"
| "tokens_of (r # rs) =
     (case token_of r of
        None \<Rightarrow> None
      | Some t \<Rightarrow> map_option ((#) t) (tokens_of rs))"

datatype frame = FArray "json list" | FObject "(string \<times> json) list" string

datatype parse_mode =
    PValue | PValueOrEnd | PKeyOrEnd | PKey | PColon | PCommaOrEnd | PDone json

definition maxNestingDepth :: nat where
  "maxNestingDepth = 10000"

definition complete :: "json \<Rightarrow> frame list \<Rightarrow> parse_mode \<times> frame list" where
  "complete v st =
     (case st of
        [] \<Rightarrow> (PDone v, [])
      | FArray xs # rest \<Rightarrow> (PCommaOrEnd, FArray (xs @ [v]) # rest)
      | FObject ms k # rest \<Rightarrow> (PCommaOrEnd, FObject (ms @ [(k, v)]) k # rest))"

definition begin_value :: "token \<Rightarrow> frame list \<Rightarrow> (parse_mode \<times> frame list) option" where
  "begin_value t st =
     (case t of
        TString s \<Rightarrow> Some (complete (JString s) st)
      | TNumber n \<Rightarrow> Some (complete (JNumber n) st)
      | TBool b \<Rightarrow> Some (complete (JBool b) st)
      | TNull \<Rightarrow> Some (complete JNull st)
      | TPunct c \<Rightarrow>
          if c = CHR ''['' then
            (if length st < maxNestingDepth then Some (PValueOrEnd, FArray [] # st) else None)
          else if c = CHR ''{'' then
            (if length st < maxNestingDepth then Some (PKeyOrEnd, FObject [] [] # st) else None)
          else None)"

definition end_container :: "char \<Rightarrow> frame list \<Rightarrow> (parse_mode \<times> frame list) option" where
  "end_container c st =
     (case st of
        [] \<Rightarrow> None
      | FArray xs # rest \<Rightarrow> if c = CHR '']'' then Some (complete (JArray xs) rest) else None
      | FObject ms k # rest \<Rightarrow> if c = CHR ''}'' then Some (complete (JObject ms) rest) else None)"

definition read_key :: "token \<Rightarrow> frame list \<Rightarrow> (parse_mode \<times> frame list) option" where
  "read_key t st =
     (case (t, st) of
        (TString k, FObject ms old # rest) \<Rightarrow> Some (PColon, FObject ms k # rest)
      | _ \<Rightarrow> None)"

definition step :: "parse_mode \<times> frame list \<Rightarrow> token \<Rightarrow> (parse_mode \<times> frame list) option" where
  "step s t =
     (case s of (mode, st) \<Rightarrow>
        (case mode of
           PValue \<Rightarrow> begin_value t st
         | PValueOrEnd \<Rightarrow>
             (if t = TPunct (CHR '']'') then end_container (CHR '']'') st else begin_value t st)
         | PKeyOrEnd \<Rightarrow>
             (if t = TPunct (CHR ''}'') then end_container (CHR ''}'') st else read_key t st)
         | PKey \<Rightarrow> read_key t st
         | PColon \<Rightarrow> (if t = TPunct (CHR '':'') then Some (PValue, st) else None)
         | PCommaOrEnd \<Rightarrow>
             (case t of
                TPunct c \<Rightarrow>
                  if c = CHR '','' then
                    (case st of
                       [] \<Rightarrow> None
                     | FArray xs # rest \<Rightarrow> Some (PValue, st)
                     | FObject ms k # rest \<Rightarrow> Some (PKey, st))
                  else end_container c st
              | _ \<Rightarrow> None)
         | PDone v \<Rightarrow> None))"

fun run :: "parse_mode \<times> frame list \<Rightarrow> token list \<Rightarrow> (parse_mode \<times> frame list) option" where
  "run s [] = Some s"
| "run s (t # ts) = (case step s t of None \<Rightarrow> None | Some s1 \<Rightarrow> run s1 ts)"

definition json_parse :: "string \<Rightarrow> json option" where
  "json_parse data =
     (case lex LIdle [] data of
        None \<Rightarrow> None
      | Some raw \<Rightarrow>
          (case tokens_of raw of
             None \<Rightarrow> None
           | Some ts \<Rightarrow>
               (case run (PValue, []) ts of
                  Some (PDone v, st) \<Rightarrow> Some v
                | _ \<Rightarrow> None)))"

subsection \<open>encoding/json: Unmarshal into an APIError\<close>

text \<open>
  The struct tags of \<^verbatim>\<open>APIError\<close>: \<^verbatim>\<open>StatusCode\<close> has \<^verbatim>\<open>json:"-"\<close> and is never
  read or written; \<^verbatim>\<open>Message\<close> is the key \<^verbatim>\<open>error\<close>; \<^verbatim>\<open>Details\<close> is the key
  \<^verbatim>\<open>details\<close>.

  A key of the JSON object selects the field whose name it equals, or else the field
  whose name it equals under \<^verbatim>\<open>foldName\<close> (Unicode simple case folding). Upper and
  lower case ASCII letters fold together; the only other runes that fold to an ASCII
  letter are U+017F (long s, bytes C5 BF) and U+212A (Kelvin sign, bytes E2 84 AA).
  Every other rune folds to a rune outside ASCII, so it can never match one of the two
  field names and is left as it is here.
\<close>

fun foldName :: "string \<Rightarrow> string" where
  "foldName [] = []"
| "foldName (c # cs) =
     (if 97 \<le> byte c \<and> byte c \<le> 122 then char_of (byte c - 32) # foldName cs
      else if c = CHR 0xC5 \<and> take 1 cs = [CHR 0xBF] then CHR ''S'' # foldName (drop 1 cs)
      else if c = CHR 0xE2 \<and> take 2 cs = [CHR 0x84, CHR 0xAA]
        then CHR ''K'' # foldName (drop 2 cs)
      else c # foldName cs)"

datatype field = FMessage | FDetails

definition field_of_key :: "string \<Rightarrow> field option" where
  "field_of_key k =
     (if k = ''error'' then Some FMessage
      else if k = ''details'' then Some FDetails
      else if foldName k = foldName ''error'' then Some FMessage
      else if foldName k = foldName ''details'' then Some FDetails
      else None)"

text \<open>
  Storing a JSON value into a Go value. A value of the wrong JSON type is recorded as an
  \<^verbatim>\<open>UnmarshalTypeError\<close> (the first component \<open>True\<close>) and decoding goes on; the
  error is returned when the whole value has been read.

  Into a \<^verbatim>\<open>string\<close>: a JSON string is stored, \<^verbatim>\<open>null\<close> leaves the value as it
  is, anything else is a type error.
\<close>

definition store_string :: "json \<Rightarrow> string \<Rightarrow> bool \<times> string" where
  "store_string j old =
     (case j of JString s \<Rightarrow> (False, s) | JNull \<Rightarrow> (False, old) | _ \<Rightarrow> (True, old))"

text \<open>
  Into a \<^verbatim>\<open>map[string]string\<close>: a JSON object stores each member into a fresh
  zero element and writes the element under the member's key, also when the member's
  value was a type error; \<^verbatim>\<open>null\<close> sets the map to nil; anything else is a type
  error.
\<close>

fun store_members :: "(string \<times> json) list \<Rightarrow> bool \<times> go_map \<Rightarrow> bool \<times> go_map" where
  "store_members [] r = r"
| "store_members ((k, v) # kvs) (bad, m) =
     (case store_string v [] of
        (bad1, s) \<Rightarrow> store_members kvs (bad \<or> bad1, AList.update k s m))"

definition store_map :: "json \<Rightarrow> go_map \<Rightarrow> bool \<times> go_map" where
  "store_map j old =
     (case j of
        JObject kvs \<Rightarrow> store_members kvs (False, old)
      | JNull \<Rightarrow> (False, [])
      | _ \<Rightarrow> (True, old))"

text \<open>
  Into the struct: the members of a JSON object in their order, each into the field its
  key selects, keys that select no field skipped; \<^verbatim>\<open>null\<close> changes nothing;
  anything else is a type error.
\<close>

fun store_fields :: "(string \<times> json) list \<Rightarrow> bool \<times> APIError \<Rightarrow> bool \<times> APIError" where
  "store_fields [] r = r"
| "store_fields ((k, v) # kvs) (bad, e) =
     (case field_of_key k of
        None \<Rightarrow> store_fields kvs (bad, e)
      | Some FMessage \<Rightarrow>
          (case store_string v (Message e) of
             (bad1, s) \<Rightarrow> store_fields kvs (bad \<or> bad1, e\<lparr>Message := s\<rparr>))
      | Some FDetails \<Rightarrow>
          (case store_map v (Details e) of
             (bad1, m) \<Rightarrow> store_fields kvs (bad \<or> bad1, e\<lparr>Details := m\<rparr>)))"

definition store_APIError :: "json \<Rightarrow> APIError \<Rightarrow> bool \<times> APIError" where
  "store_APIError j e =
     (case j of
        JObject kvs \<Rightarrow> store_fields kvs (False, e)
      | JNull \<Rightarrow> (False, e)
      | _ \<Rightarrow> (True, e))"

text \<open>
  \<^verbatim>\<open>json.Unmarshal(data, apiErr)\<close>: the text is checked first, and a text that is
  not one JSON value is an error that leaves \<^verbatim>\<open>apiErr\<close> as it is. The result is
  whether an error is returned, and \<^verbatim>\<open>*apiErr\<close> afterwards.
\<close>

definition Unmarshal_APIError :: "string \<Rightarrow> APIError \<Rightarrow> bool \<times> APIError" where
  "Unmarshal_APIError data e =
     (case json_parse data of
        None \<Rightarrow> (True, e)
      | Some j \<Rightarrow> store_APIError j e)"

subsection \<open>client.go: Client, the options, New\<close>

text \<open>
  An \<^verbatim>\<open>*http.Request\<close> as \<^verbatim>\<open>do\<close> builds it, and an \<^verbatim>\<open>*http.Response\<close> as
  \<^verbatim>\<open>do\<close> reads it: its status code, and what \<^verbatim>\<open>io.ReadAll(resp.Body)\<close> returns
  (the bytes, or an error). An \<^verbatim>\<open>*http.Client\<close> is its \<^verbatim>\<open>Do\<close> method: a response
  or an error.
\<close>

record request =
  Method :: string
  URL :: string
  Header :: "(string \<times> string) list"
  Body :: "string option"

record response =
  resp_StatusCode :: int
  resp_Body :: "go_error + string"

type_synonym http_client = "request \<Rightarrow> go_error + response"

text \<open>
  The \<^verbatim>\<open>Client\<close> struct without its eight service fields, which only point back to
  the client.
\<close>

record Client =
  apiKey :: string
  baseURL :: string
  httpClient :: http_client

definition defaultBaseURL :: string where
  "defaultBaseURL = ''https://api.monigo.co''"

text \<open>
  \<^verbatim>\<open>strings.TrimRight(s, "/")\<close>: for a cutset of one ASCII byte,
  \<^verbatim>\<open>for len(s) > 0 && s[len(s)-1] == c { s = s[:len(s)-1] }\<close>.
\<close>

fun trimRightByte :: "string \<Rightarrow> char \<Rightarrow> string" where
  "trimRightByte s c =
     (if s \<noteq> [] \<and> last s = c then trimRightByte (butlast s) c else s)"

type_synonym Option = "Client \<Rightarrow> Client"

definition WithBaseURL :: "string \<Rightarrow> Option" where
  "WithBaseURL u = (\<lambda>c. c\<lparr>baseURL := trimRightByte u (CHR ''/'')\<rparr>)"

definition WithHTTPClient :: "http_client \<Rightarrow> Option" where
  "WithHTTPClient hc = (\<lambda>c. c\<lparr>httpClient := hc\<rparr>)"

text \<open>
  \<^verbatim>\<open>New(apiKey, opts...)\<close>; the first argument is the behaviour of the default
  \<^verbatim>\<open>&http.Client{}\<close>.
\<close>

definition New :: "http_client \<Rightarrow> string \<Rightarrow> Option list \<Rightarrow> Client" where
  "New default_client key opts =
     fold (\<lambda>opt c. opt c) opts
       \<lparr>apiKey = key, baseURL = defaultBaseURL, httpClient = default_client\<rparr>"

subsection \<open>client.go: do\<close>

text \<open>
  What \<^verbatim>\<open>do\<close> takes from outside the package: \<^verbatim>\<open>json.Marshal\<close> on the body's
  type, and the error of \<^verbatim>\<open>http.NewRequestWithContext\<close> for a method and a URL, if
  there is one (an invalid method, a URL that does not parse).
\<close>

record 'b env =
  json_Marshal :: "'b \<Rightarrow> go_error + string"
  NewRequest_error :: "string \<Rightarrow> string \<Rightarrow> go_error option"

text \<open>
  The decode target \<^verbatim>\<open>out\<close> is what \<^verbatim>\<open>json.Unmarshal(respBody, out)\<close> does with
  it: the decoded value, or an error.
\<close>

type_synonym 'a target = "string \<Rightarrow> go_error + 'a"

text \<open>The calls \<^verbatim>\<open>do\<close> makes into \<^verbatim>\<open>net/http\<close>, in their order.\<close>

datatype call =
    NewRequestWithContext string string "string option"
  | Do request

record 'a result =
  returned :: "go_error option"
  decoded :: "'a option"
  calls :: "call list"

definition Header_Set :: "string \<Rightarrow> string \<Rightarrow> (string \<times> string) list \<Rightarrow> (string \<times> string) list"
  where "Header_Set k v h = AList.update k v h"

text \<open>Lines 103 to 105: the three headers, set on the new request.\<close>

definition set_headers :: "Client \<Rightarrow> request \<Rightarrow> request" where
  "set_headers c req =
     req\<lparr>Header :=
       Header_Set ''Accept'' ''application/json''
         (Header_Set ''Content-Type'' ''application/json''
           (Header_Set ''Authorization'' (''Bearer '' @ apiKey c) (Header req)))\<rparr>"

text \<open>Lines 118 to 125: a status of 400 or more becomes an APIError.\<close>

definition api_error_of :: "int \<Rightarrow> string \<Rightarrow> APIError" where
  "api_error_of status respBody =
     (case Unmarshal_APIError respBody \<lparr>StatusCode = status, Message = [], Details = []\<rparr> of
        (jsonErr, apiErr) \<Rightarrow> if jsonErr then apiErr\<lparr>Message := respBody\<rparr> else apiErr)"

text \<open>Lines 118 to 132: the response, once its body has been read.\<close>

definition handle_response ::
  "int \<Rightarrow> string \<Rightarrow> 'a target option \<Rightarrow> go_error option \<times> 'a option" where
  "handle_response status respBody out =
     (if status \<ge> 400 then (Some (APIErr (api_error_of status respBody)), None)
      else
        (case out of
           None \<Rightarrow> (None, None)
         | Some unmarshal \<Rightarrow>
             if length respBody > 0 then
               (case unmarshal respBody of
                  Inl e \<Rightarrow> (Some (WrapError ''monigo: decode response'' e), None)
                | Inr v \<Rightarrow> (None, Some v))
             else (None, None)))"

definition do ::
  "'b env \<Rightarrow> Client \<Rightarrow> string \<Rightarrow> string \<Rightarrow> 'b option \<Rightarrow> 'a target option \<Rightarrow> 'a result" where
  "do env c method path body out =
     (case (case body of
              None \<Rightarrow> Inr None
            | Some b \<Rightarrow>
                (case json_Marshal env b of Inl e \<Rightarrow> Inl e | Inr bs \<Rightarrow> Inr (Some bs))) of
        Inl e \<Rightarrow>
          \<lparr>returned = Some (WrapError ''monigo: marshal request body'' e), decoded = None,
           calls = []\<rparr>
      | Inr bodyReader \<Rightarrow>
          (let new = NewRequestWithContext method (baseURL c @ path) bodyReader in
           case NewRequest_error env method (baseURL c @ path) of
             Some e \<Rightarrow>
               \<lparr>returned = Some (WrapError ''monigo: build request'' e), decoded = None,
                calls = [new]\<rparr>
           | None \<Rightarrow>
               (let req = set_headers c
                      \<lparr>Method = method, URL = baseURL c @ path, Header = [],
                       Body = bodyReader\<rparr>
                in case httpClient c req of
                     Inl e \<Rightarrow>
                       \<lparr>returned = Some (WrapError ''monigo: execute request'' e), decoded = None,
                        calls = [new, Do req]\<rparr>
                   | Inr resp \<Rightarrow>
                       (case resp_Body resp of
                          Inl e \<Rightarrow>
                            \<lparr>returned = Some (WrapError ''monigo: read response body'' e),
                             decoded = None, calls = [new, Do req]\<rparr>
                        | Inr respBody \<Rightarrow>
                            (case handle_response (resp_StatusCode resp) respBody out of
                               (e, v) \<Rightarrow>
                                 \<lparr>returned = e, decoded = v, calls = [new, Do req]\<rparr>)))))"

subsection \<open>net/url: Values and QueryEscape\<close>

text \<open>
  \<^verbatim>\<open>url.QueryEscape\<close>: letters, digits and \<^verbatim>\<open>- _ . ~\<close> stay, a space becomes
  \<^verbatim>\<open>+\<close>, every other byte becomes \<^verbatim>\<open>%XX\<close> in upper-case hexadecimal.
\<close>

definition is_alnum :: "char \<Rightarrow> bool" where
  "is_alnum c \<longleftrightarrow>
     97 \<le> byte c \<and> byte c \<le> 122 \<or> 65 \<le> byte c \<and> byte c \<le> 90 \<or> 48 \<le> byte c \<and> byte c \<le> 57"

definition shouldEscape :: "char \<Rightarrow> bool" where
  "shouldEscape c \<longleftrightarrow> \<not> (is_alnum c \<or> c \<in> set ''-_.~'')"

definition upperhex :: "nat \<Rightarrow> char" where
  "upperhex n = ''0123456789ABCDEF'' ! n"

definition escape_byte :: "char \<Rightarrow> string" where
  "escape_byte c =
     (if c = CHR '' '' then ''+''
      else if shouldEscape c then [CHR ''%'', upperhex (byte c div 16), upperhex (byte c mod 16)]
      else [c])"

definition QueryEscape :: "string \<Rightarrow> string" where
  "QueryEscape s = concat (map escape_byte s)"

text \<open>
  \<^verbatim>\<open>url.Values\<close> is a \<^verbatim>\<open>map[string][]string\<close>, an association list read through
  \<^const>\<open>map_of\<close> as above. \<^verbatim>\<open>Set\<close> replaces the values of a key by one value.
\<close>

type_synonym Values = "(string \<times> string list) list"

definition Values_Set :: "string \<Rightarrow> string \<Rightarrow> Values \<Rightarrow> Values" where
  "Values_Set k v q = AList.update k [v] q"

definition Values_keys :: "Values \<Rightarrow> string list" where
  "Values_keys q = sort (remdups (map fst q))"

definition Values_len :: "Values \<Rightarrow> nat" where
  "Values_len q = length (Values_keys q)"

definition Values_index :: "Values \<Rightarrow> string \<Rightarrow> string list" where
  "Values_index q k = (case map_of q k of None \<Rightarrow> [] | Some vs \<Rightarrow> vs)"

text \<open>
  \<^verbatim>\<open>
  func (v Values) Encode() string {
      if len(v) == 0 { return "" }
      var buf strings.Builder
      for _, k := range slices.Sorted(maps.Keys(v)) {
          vs := v[k]
          keyEscaped := QueryEscape(k)
          for _, v := range vs {
              if buf.Len() > 0 { buf.WriteByte('&') }
              buf.WriteString(keyEscaped)
              buf.WriteByte('=')
              buf.WriteString(QueryEscape(v))
          }
      }
      return buf.String()
  }
  \<close>
\<close>

fun write_values :: "string \<Rightarrow> string \<Rightarrow> string list \<Rightarrow> string" where
  "write_values buf keyEscaped [] = buf"
| "write_values buf keyEscaped (v # vs) =
     write_values
       ((if length buf > 0 then buf @ ''&'' else buf) @ keyEscaped @ ''='' @ QueryEscape v)
       keyEscaped vs"

fun write_keys :: "string \<Rightarrow> Values \<Rightarrow> string list \<Rightarrow> string" where
  "write_keys buf q [] = buf"
| "write_keys buf q (k # ks) =
     write_keys (write_values buf (QueryEscape k) (Values_index q k)) q ks"

definition Values_Encode :: "Values \<Rightarrow> string" where
  "Values_Encode q = (if Values_len q = 0 then [] else write_keys [] q (Values_keys q))"

subsection \<open>The list facades\<close>

text \<open>
  The params structs. The field names carry the struct as a prefix, since the three
  structs share \<^verbatim>\<open>CustomerID\<close> and \<^verbatim>\<open>Status\<close>.
\<close>

record ListSubscriptionsParams =
  sub_CustomerID :: string
  sub_PlanID :: string
  sub_Status :: string

record ListInvoicesParams =
  inv_Status :: string
  inv_CustomerID :: string

text \<open>
  \<^verbatim>\<open>UsageParams\<close>: \<^verbatim>\<open>From\<close> and \<^verbatim>\<open>To\<close> are \<^verbatim>\<open>*time.Time\<close>, nil being
  \<open>None\<close>. The type \<open>'t\<close> is \<^verbatim>\<open>time.Time\<close>.
\<close>

record 't UsageParams =
  usage_CustomerID :: string
  usage_MetricID :: string
  usage_From :: "'t option"
  usage_To :: "'t option"

text \<open>The path with its query string, as each \<^verbatim>\<open>List\<close> builds it before calling \<^verbatim>\<open>do\<close>.\<close>

definition with_query :: "string \<Rightarrow> Values \<Rightarrow> string" where
  "with_query path q = (if Values_len q > 0 then path @ ''?'' @ Values_Encode q else path)"

definition subscriptions_query :: "ListSubscriptionsParams \<Rightarrow> Values" where
  "subscriptions_query params =
     (let q = [];
          q = (if sub_CustomerID params \<noteq> []
               then Values_Set ''customer_id'' (sub_CustomerID params) q else q);
          q = (if sub_PlanID params \<noteq> []
               then Values_Set ''plan_id'' (sub_PlanID params) q else q);
          q = (if sub_Status params \<noteq> []
               then Values_Set ''status'' (sub_Status params) q else q)
      in q)"

definition SubscriptionService_List ::
  "'b env \<Rightarrow> Client \<Rightarrow> ListSubscriptionsParams \<Rightarrow> 'a target \<Rightarrow> 'a result" where
  "SubscriptionService_List env c params out =
     do env c ''GET'' (with_query ''/v1/subscriptions'' (subscriptions_query params))
       None (Some out)"

definition invoices_query :: "ListInvoicesParams \<Rightarrow> Values" where
  "invoices_query params =
     (let q = [];
          q = (if inv_Status params \<noteq> []
               then Values_Set ''status'' (inv_Status params) q else q);
          q = (if inv_CustomerID params \<noteq> []
               then Values_Set ''customer_id'' (inv_CustomerID params) q else q)
      in q)"

definition InvoiceService_List ::
  "'b env \<Rightarrow> Client \<Rightarrow> ListInvoicesParams \<Rightarrow> 'a target \<Rightarrow> 'a result" where
  "InvoiceService_List env c params out =
     do env c ''GET'' (with_query ''/v1/invoices'' (invoices_query params)) None (Some out)"

text \<open>
  \<^verbatim>\<open>UsageService.Query\<close>; the first argument is
  \<^verbatim>\<open>t.UTC().Format(time.RFC3339)\<close>.
\<close>

definition usage_query :: "('t \<Rightarrow> string) \<Rightarrow> 't UsageParams \<Rightarrow> Values" where
  "usage_query format_rfc3339 params =
     (let q = [];
          q = (if usage_CustomerID params \<noteq> []
               then Values_Set ''customer_id'' (usage_CustomerID params) q else q);
          q = (if usage_MetricID params \<noteq> []
               then Values_Set ''metric_id'' (usage_MetricID params) q else q);
          q = (case usage_From params of
                 Some t \<Rightarrow> Values_Set ''from'' (format_rfc3339 t) q | None \<Rightarrow> q);
          q = (case usage_To params of
                 Some t \<Rightarrow> Values_Set ''to'' (format_rfc3339 t) q | None \<Rightarrow> q)
      in q)"

definition UsageService_Query ::
  "'b env \<Rightarrow> Client \<Rightarrow> ('t \<Rightarrow> string) \<Rightarrow> 't UsageParams \<Rightarrow> 'a target \<Rightarrow> 'a result" where
  "UsageService_Query env c format_rfc3339 params out =
     do env c ''GET'' (with_query ''/v1/usage'' (usage_query format_rfc3339 params))
       None (Some out)"

text \<open>
  \<^verbatim>\<open>PortalTokenService.List(ctx, customerID)\<close>:
  \<^verbatim>\<open>path := fmt.Sprintf("/v1/portal/tokens?customer_id=%s", customerID)\<close>.
\<close>

definition PortalTokenService_List ::
  "'b env \<Rightarrow> Client \<Rightarrow> string \<Rightarrow> 'a target \<Rightarrow> 'a result" where
  "PortalTokenService_List env c customerID out =
     do env c ''GET'' (''/v1/portal/tokens?customer_id='' @ customerID) None (Some out)"

subsection \<open>Reading a request back\<close>

text \<open>
  The query string of a request URL is what follows its first \<^verbatim>\<open>?\<close>; its parameters
  are separated by \<^verbatim>\<open>&\<close>, and the name of a parameter is what precedes its first
  \<^verbatim>\<open>=\<close>.
\<close>

definition raw_query :: "string \<Rightarrow> string" where
  "raw_query u = drop 1 (dropWhile (\<lambda>c. c \<noteq> CHR ''?'') u)"

fun split_on :: "char \<Rightarrow> string \<Rightarrow> string \<Rightarrow> string list" where
  "split_on sep cur [] = [rev cur]"
| "split_on sep cur (c # cs) =
     (if c = sep then rev cur # split_on sep [] cs else split_on sep (c # cur) cs)"

definition query_params :: "string \<Rightarrow> (string \<times> string) list" where
  "query_params u =
     (if raw_query u = [] then []
      else map (\<lambda>p. (takeWhile (\<lambda>c. c \<noteq> CHR ''='') p,
                      drop 1 (dropWhile (\<lambda>c. c \<noteq> CHR ''='') p)))
             (split_on (CHR ''&'') [] (raw_query u)))"

text \<open>The requests handed to the HTTP client, and the URLs requests were built for.\<close>

fun sent :: "call list \<Rightarrow> request list" where
  "sent [] = []"
| "sent (NewRequestWithContext m u b # cs) = sent cs"
| "sent (Do r # cs) = r # sent cs"

fun built_urls :: "call list \<Rightarrow> string list" where
  "built_urls [] = []"
| "built_urls (NewRequestWithContext m u b # cs) = u # built_urls cs"
| "built_urls (Do r # cs) = built_urls cs"

subsection \<open>The shape of an error body\<close>

text \<open>
  The JSON values that \<^verbatim>\<open>json.Unmarshal\<close> stores into an APIError without a type
  error: \<^verbatim>\<open>null\<close>, or an object in which every member that selects \<^verbatim>\<open>Message\<close>
  is a string or \<^verbatim>\<open>null\<close>, and every member that selects \<^verbatim>\<open>Details\<close> is
  \<^verbatim>\<open>null\<close> or an object of strings and \<^verbatim>\<open>null\<close>s.
\<close>

definition string_or_null :: "json \<Rightarrow> bool" where
  "string_or_null j = (case j of JString s \<Rightarrow> True | JNull \<Rightarrow> True | _ \<Rightarrow> False)"

definition details_shape :: "json \<Rightarrow> bool" where
  "details_shape j =
     (case j of
        JNull \<Rightarrow> True
      | JObject ms \<Rightarrow> list_all (\<lambda>m. string_or_null (snd m)) ms
      | _ \<Rightarrow> False)"

definition member_shape :: "string \<times> json \<Rightarrow> bool" where
  "member_shape m =
     (case field_of_key (fst m) of
        None \<Rightarrow> True
      | Some FMessage \<Rightarrow> string_or_null (snd m)
      | Some FDetails \<Rightarrow> details_shape (snd m))"

definition error_shape :: "json \<Rightarrow> bool" where
  "error_shape j =
     (case j of
        JNull \<Rightarrow> True
      | JObject kvs \<Rightarrow> list_all member_shape kvs
      | _ \<Rightarrow> False)"

text \<open>The members of a JSON value (none unless it is an object), and the keys among them.\<close>

definition members :: "json \<Rightarrow> (string \<times> json) list" where
  "members j = (case j of JObject kvs \<Rightarrow> kvs | _ \<Rightarrow> [])"

definition has_key :: "json \<Rightarrow> string \<Rightarrow> bool" where
  "has_key j k \<longleftrightarrow> k \<in> fst ` set (members j)"

definition selects :: "field \<Rightarrow> json \<Rightarrow> bool" where
  "selects f j \<longleftrightarrow> (\<exists>m \<in> set (members j). field_of_key (fst m) = Some f)"

text \<open>An object of strings as a Go map.\<close>

definition strings_of :: "(string \<times> json) list \<Rightarrow> go_map" where
  "strings_of ms = map (\<lambda>m. (fst m, case snd m of JString s \<Rightarrow> s | _ \<Rightarrow> [])) ms"

subsection \<open>Test fixtures\<close>

text \<open>
  After \<^verbatim>\<open>testutil_test.go\<close>: a server that answers every request with one status
  and body, and \<^verbatim>\<open>mockServer\<close>, a client pointed at it with the key
  \<^verbatim>\<open>test_key_abc\<close>. In \<open>test_env\<close> a request body is given as what
  \<^verbatim>\<open>json.Marshal\<close> returns for it, and every request can be built. \<open>any_target\<close>
  is a decode target of type \<^verbatim>\<open>*any\<close>, which takes every JSON value.
\<close>

definition handler :: "int \<Rightarrow> string \<Rightarrow> http_client" where
  "handler status body = (\<lambda>req. Inr \<lparr>resp_StatusCode = status, resp_Body = Inr body\<rparr>)"

definition mockServer :: "int \<Rightarrow> string \<Rightarrow> Client" where
  "mockServer status body =
     New (handler status body) ''test_key_abc'' [WithBaseURL ''http://127.0.0.1:8080/'']"

definition test_env :: "(go_error + string) env" where
  "test_env = \<lparr>json_Marshal = (\<lambda>b. b), NewRequest_error = (\<lambda>m u. None)\<rparr>"

definition any_target :: "json target" where
  "any_target data =
     (case json_parse data of
        None \<Rightarrow> Inl (ErrorString ''invalid character'')
      | Some j \<Rightarrow> Inr j)"

section \<open>Properties\<close>

subsection \<open>Error formatting and classification\<close>

lemmas predicate_defs =
  IsNotFound_def IsUnauthorized_def IsForbidden_def IsConflict_def
  IsRateLimited_def IsQuotaExceeded_def IsValidationError_def


lemma map_len_zero_iff: "map_len m = 0 \<longleftrightarrow> m = []"
  by (simp add: map_len_def map_keys_def)

lemma as_chain_api_free: "api_free x \<Longrightarrow> as_chain x = None"
  by (induction x) simp_all













subsection \<open>The transport core\<close>




text \<open>The three ways \<^verbatim>\<open>do\<close> can go, by the calls it has made.\<close>

lemma do_cases:
  "(\<exists>e. do env c m p b out =
          \<lparr>returned = Some (WrapError ''monigo: marshal request body'' e), decoded = None,
           calls = []\<rparr>) \<or>
   (\<exists>e br. do env c m p b out =
          \<lparr>returned = Some (WrapError ''monigo: build request'' e), decoded = None,
           calls = [NewRequestWithContext m (baseURL c @ p) br]\<rparr>) \<or>
   (\<exists>br. calls (do env c m p b out) =
          [NewRequestWithContext m (baseURL c @ p) br,
           Do (set_headers c \<lparr>Method = m, URL = baseURL c @ p, Header = [], Body = br\<rparr>)])"
  by (auto simp: do_def Let_def split: option.splits sum.splits prod.splits)


lemma built_urls_do:
  "set (built_urls (calls (do env c m p b out))) \<subseteq> {baseURL c @ p}"
  using do_cases [of env c m p b out] by auto

lemma sent_do:
  "set (sent (calls (do env c m p b out))) \<subseteq>
     {set_headers c \<lparr>Method = m, URL = baseURL c @ p, Header = [], Body = br\<rparr> | br. True}"
  using do_cases [of env c m p b out] by auto




text \<open>
  C4. When the body is present and \<^verbatim>\<open>json.Marshal\<close> fails with \<open>e\<close>, \<^verbatim>\<open>do\<close>
  returns \<^verbatim>\<open>fmt.Errorf("monigo: marshal request body: %w", e)\<close>: not an APIError
  value, not the wrapper of a transport error, and with no APIError on its chain unless
  \<open>e\<close> has one. It has made no call into \<^verbatim>\<open>net/http\<close>: no request was built
  and none was sent.
\<close>

theorem C4_marshal_failure_is_local:
  assumes "json_Marshal env b = Inl e"
  shows
    "returned (do env c m p (Some b) out) = Some (WrapError ''monigo: marshal request body'' e) \<and>
     (\<forall>a. returned (do env c m p (Some b) out) \<noteq> Some (APIErr a)) \<and>
     (\<forall>t. returned (do env c m p (Some b) out) \<noteq> Some (WrapError ''monigo: execute request'' t)) \<and>
     (api_free e \<longrightarrow> errors_As (returned (do env c m p (Some b) out)) = None) \<and>
     decoded (do env c m p (Some b) out) = None \<and>
     calls (do env c m p (Some b) out) = []"
  using assms
  by (simp add: do_def errors_As_def as_chain_api_free)

theorem C4_marshal_failure_is_local_witness:
  "json_Marshal test_env (Inl (ErrorString ''json: unsupported type: chan int''))
     = Inl (ErrorString ''json: unsupported type: chan int'') \<and>
   api_free (ErrorString ''json: unsupported type: chan int'') \<and>
   do test_env (mockServer 200 ''{}'') ''POST'' ''/v1/customers''
       (Some (Inl (ErrorString ''json: unsupported type: chan int''))) (Some any_target)
     = \<lparr>returned = Some (WrapError ''monigo: marshal request body''
                  (ErrorString ''json: unsupported type: chan int'')),
        decoded = None, calls = []\<rparr> \<and>
   all_predicates (returned (do test_env (mockServer 200 ''{}'') ''POST'' ''/v1/customers''
       (Some (Inl (ErrorString ''json: unsupported type: chan int''))) (Some any_target)))
     = [False, False, False, False, False, False, False]"
proof -
  let ?e = "ErrorString ''json: unsupported type: chan int''"
  let ?r = "do test_env (mockServer 200 ''{}'') ''POST'' ''/v1/customers''
       (Some (Inl ?e)) (Some any_target)"
  have h: "json_Marshal test_env (Inl ?e) = Inl ?e"
    by (simp add: test_env_def)
  have f: "api_free ?e" by simp
  note t = C4_marshal_failure_is_local [OF h, of "mockServer 200 ''{}''" "''POST''"
      "''/v1/customers''" "Some any_target"]
  from t f have a: "errors_As (returned ?r) = None" by blast
  from t have r: "?r = \<lparr>returned = Some (WrapError ''monigo: marshal request body'' ?e),
        decoded = None, calls = []\<rparr>"
    by simp
  from a have "all_predicates (returned ?r) = [False, False, False, False, False, False, False]"
    by (simp add: all_predicates_def predicate_defs)
  with h f r show ?thesis by simp
qed

end
